theory Spec2Isabelle
  imports Main "HOL-Library.Word"
begin

unbundle bit_operations_syntax

section \<open>Platform\<close>

text \<open>
  The firmware is built with avr-gcc for an 8-bit AVR: \<open>char\<close> and \<open>unsigned char\<close>
  are 8 bits, \<open>int\<close> and \<open>unsigned int\<close> are 16 bits. Operands of \<open>&\<close>, \<open>|\<close>,
  \<open>~\<close>, \<open>^\<close>, \<open><<\<close> and \<open>>>\<close> are promoted to 16 bits before the operation.
\<close>

type_synonym uchar = "8 word"
type_synonym uint = "16 word"
type_synonym cint = "16 word"

text \<open>
  Bit numbers of the port pins, from the toolchain header \<open>avr/io.h\<close>. The masks that
  the drivers write next to them (\<open>PINB&0x3F\<close> for PB0..PB5, \<open>>>5\<close> after
  \<open>&(1<<PB5)\<close>, \<open>PINC&0x04\<close> beside \<open>PINC&(1<<PC2)\<close>) and the bit layout comment of
  sega.c (UP, DOWN, LEFT, RIGHT in bits 0..3) fix the same numbers.
\<close>

definition PB0 :: nat where "PB0 = 0"
definition PB1 :: nat where "PB1 = 1"
definition PB2 :: nat where "PB2 = 2"
definition PB3 :: nat where "PB3 = 3"
definition PB4 :: nat where "PB4 = 4"
definition PB5 :: nat where "PB5 = 5"
definition PC2 :: nat where "PC2 = 2"

text \<open>
  A report buffer is a pointer to bytes: the model keeps the bytes found at the pointer,
  by offset. \<open>None\<close> is the null pointer.
\<close>

type_synonym buffer = "nat \<Rightarrow> uchar"

definition report_bytes :: "nat \<Rightarrow> buffer \<Rightarrow> uchar list" where
  "report_bytes n b = map b [0..<n]"

section \<open>Sega Genesis driver (sega.c)\<close>

text \<open>
  The static variables of sega.c. Layout of \<open>last_update_state\<close>, from the source:
  bit 11 MODE, 10 X, 9 Y, 8 Z, 7 START, 6 BUTA, 5 BUTC, 4 BUTB, 3 RIGHT, 2 LEFT, 1 DOWN,
  0 UP; a line reads 0 while its button is held.
\<close>

record sega_state =
  sega_last_update_state :: uint
  sega_last_reported_state :: uint
  but3_6 :: uchar

text \<open>
  What the input registers hold at each read of \<open>SegaUpdate\<close>. The select line and the
  50 microsecond delays act on the pad only; their effect is the value read in each phase
  of each of the four iterations.
\<close>

record sega_pins =
  pinb_high :: "nat \<Rightarrow> uchar"
  pinc_high :: "nat \<Rightarrow> uchar"
  pinb_low :: "nat \<Rightarrow> uchar"
  pinc_low :: "nat \<Rightarrow> uchar"

text \<open>\<open>SegaInit\<close> configures the ports and returns 0; it writes no variable.\<close>

definition SegaInit :: "sega_state \<Rightarrow> uchar \<times> sega_state" where
  "SegaInit s = (0, s)"

text \<open>
  One iteration of the loop of \<open>SegaUpdate\<close>, and the loop over \<open>i = 0, 1, 2, 3\<close>.
\<close>

definition SegaUpdate_body :: "sega_pins \<Rightarrow> nat \<Rightarrow> sega_state \<Rightarrow> sega_state" where
  "SegaUpdate_body p i s =
    (let s = (if i = 0 then
                s\<lparr>sega_last_update_state :=
                    0x0000 OR ucast (pinb_high p i AND 0x1F)
                           OR push_bit 3 (ucast (pinc_high p i AND 0x04))\<rparr>
              else if i = 2 then
                s\<lparr>sega_last_update_state :=
                    sega_last_update_state s OR push_bit 8 (ucast (pinb_high p i AND 0x0F))\<rparr>
              else s);
         s = (if i = 0 then
                s\<lparr>sega_last_update_state :=
                    sega_last_update_state s
                      OR (push_bit 2 (ucast (pinb_low p i AND push_bit PB4 1))
                          OR push_bit 5 (ucast (pinc_low p i AND push_bit PC2 1)))\<rparr>
              else s);
         s = (if i = 1 then s\<lparr>but3_6 := pinb_low p i AND 0x0F\<rparr> else s)
     in s)"

definition SegaUpdate :: "sega_pins \<Rightarrow> sega_state \<Rightarrow> sega_state" where
  "SegaUpdate p s = fold (SegaUpdate_body p) [0..<4] s"

text \<open>The comparison that \<open>SegaChanged\<close> returns, as a truth value; the id is not used.\<close>

definition SegaChanged :: "uchar \<Rightarrow> sega_state \<Rightarrow> bool" where
  "SegaChanged rid s \<longleftrightarrow> sega_last_update_state s \<noteq> sega_last_reported_state s"

definition SEGA_REPORT_SIZE :: uchar where
  "SEGA_REPORT_SIZE = 4"

text \<open>
  The statement \<open>if (c) buf[i] |= m;\<close>, which both drivers use for every button.
\<close>

definition or_if :: "bool \<Rightarrow> nat \<Rightarrow> uchar \<Rightarrow> buffer \<Rightarrow> buffer" where
  "or_if c i m b = (if c then b(i := b i OR m) else b)"

text \<open>The block guarded by \<open>if (reportBuffer)\<close>.\<close>

definition SegaFillReport :: "sega_state \<Rightarrow> buffer \<Rightarrow> buffer" where
  "SegaFillReport s reportBuffer =
    (let x = (0x7f :: cint); y = (0x7f :: cint);
         tmp = NOT (sega_last_update_state s);
         x = (if tmp AND push_bit PB3 1 \<noteq> 0 then 0xff else x);
         x = (if tmp AND push_bit PB2 1 \<noteq> 0 then 0x00 else x);
         y = (if tmp AND push_bit PB1 1 \<noteq> 0 then 0xff else y);
         y = (if tmp AND push_bit PB0 1 \<noteq> 0 then 0x00 else y);
         b = reportBuffer(0 := ucast x);
         b = b(1 := ucast y);
         b = b(2 := 0);
         b = b(3 := 0);
         b = or_if (tmp AND push_bit 6 1 \<noteq> 0) 2 (push_bit 5 1) b;
         b = or_if (tmp AND push_bit 4 1 \<noteq> 0) 2 (push_bit 2 1) b;
         b = or_if (tmp AND push_bit 5 1 \<noteq> 0) 2 (push_bit 3 1) b;
         b = or_if (tmp AND push_bit 7 1 \<noteq> 0) 3 (push_bit 1 1) b;
         b = (if but3_6 s = 0 then
                (let b = or_if (tmp AND push_bit 10 1 \<noteq> 0) 2 (push_bit 0 1) b;
                     b = or_if (tmp AND push_bit 9 1 \<noteq> 0) 2 (push_bit 6 1) b;
                     b = or_if (tmp AND push_bit 8 1 \<noteq> 0) 3 (push_bit 0 1) b;
                     b = or_if (tmp AND push_bit 11 1 \<noteq> 0) 2 (push_bit 1 1) b
                 in b)
              else b)
     in b)"

text \<open>Result: the buffer as left by the call, the returned length, the new state.\<close>

definition SegaBuildReport ::
  "buffer option \<Rightarrow> uchar \<Rightarrow> sega_state \<Rightarrow> buffer option \<times> uchar \<times> sega_state" where
  "SegaBuildReport reportBuffer rid s =
    (let rb = (case reportBuffer of
                 None \<Rightarrow> None
               | Some b \<Rightarrow> Some (SegaFillReport s b))
     in (rb, SEGA_REPORT_SIZE,
         s\<lparr>sega_last_reported_state := sega_last_update_state s\<rparr>))"

text \<open>
  The report bits of the four extra buttons, as the source's comments name them:
  BUTX, BUTY, BUTZ, MODE.
\<close>

definition sega_xyzm :: "buffer \<Rightarrow> bool \<times> bool \<times> bool \<times> bool" where
  "sega_xyzm r = (bit (r 2) 0, bit (r 2) 6, bit (r 3) 0, bit (r 2) 1)"

text \<open>A run of Sega updates, one per sample.\<close>

fun sega_updates :: "sega_pins list \<Rightarrow> sega_state \<Rightarrow> sega_state" where
  "sega_updates [] s = s"
| "sega_updates (p # ps) s = sega_updates ps (SegaUpdate p s)"

section \<open>ColecoVision driver (colecovision.c)\<close>

definition MULT :: cint where
  "MULT = 32"

text \<open>
  The static variables of colecovision.c; the two-element arrays are written out element
  by element. A line reads 0 while its switch is closed.
\<close>

record cv_state =
  cv_last_update_state0 :: uchar
  cv_last_update_state1 :: uchar
  cv_last_reported_state0 :: uchar
  cv_last_reported_state1 :: uchar
  wheel_pos :: cint
  spinner :: uchar
  old_spinner :: uchar

text \<open>The quadrature encoder matrix, indexed by \<open>old * 4 + actual\<close>.\<close>

definition QEM :: "cint list" where
  "QEM = [0, 1, -1, 2, -1, 0, 2, 1, 1, 2, 0, -1, 2, -1, 1, 0]"

text \<open>Reading \<open>QEM[i]\<close>: the array has 16 elements, a read past its end is \<open>None\<close>.\<close>

definition QEM_at :: "cint \<Rightarrow> cint option" where
  "QEM_at i = (if 0 \<le> sint i \<and> nat (sint i) < length QEM then Some (QEM ! nat (sint i)) else None)"

text \<open>
  What the input registers hold at the reads of \<open>colecovisionUpdate\<close>: PINB with sub
  controller 1 selected, then PINB and PINC with sub controller 2 selected.
\<close>

record cv_pins =
  pinb_sub1 :: uchar
  pinb_sub2 :: uchar
  pinc_sub2 :: uchar

text \<open>
  The two tests under "Clipping min and max position", on the signed 16-bit position.
\<close>

definition clip :: "cint \<Rightarrow> cint" where
  "clip wheel =
    (let wheel = (if 255 < sint wheel then 255 else wheel);
         wheel = (if sint wheel < 0 then 0 else wheel)
     in wheel)"

definition colecovisionUpdate :: "cv_pins \<Rightarrow> cv_state \<Rightarrow> cv_state option" where
  "colecovisionUpdate p s =
    (let s = s\<lparr>cv_last_update_state0 := pinb_sub1 p AND 0x3F\<rparr>;
         s = s\<lparr>cv_last_update_state1 :=
                 ucast ((ucast (pinb_sub2 p) AND (0x1F :: cint))
                        OR push_bit 3 (ucast (pinc_sub2 p) AND push_bit PC2 1))\<rparr>;
         s = s\<lparr>spinner :=
                 ucast (drop_bit 5 (NOT (ucast (cv_last_update_state0 s)) AND push_bit PB5 (1 :: cint))
                        OR drop_bit 4 (NOT (ucast (cv_last_update_state1 s)) AND push_bit PB5 (1 :: cint)))\<rparr>
     in case QEM_at (ucast (spinner s) OR push_bit 2 (ucast (old_spinner s))) of
          None \<Rightarrow> None
        | Some q \<Rightarrow>
            (let delta = q * MULT;
                 wp = wheel_pos s + delta;
                 wp = clip wp
             in Some (s\<lparr>wheel_pos := wp, old_spinner := spinner s\<rparr>)))"

text \<open>
  \<open>colecovisionInit\<close> configures the ports, samples once and centres the wheel; it
  returns 0.
\<close>

definition colecovisionInit :: "cv_pins \<Rightarrow> cv_state \<Rightarrow> (uchar \<times> cv_state) option" where
  "colecovisionInit p s =
    (case colecovisionUpdate p s of
       None \<Rightarrow> None
     | Some s \<Rightarrow> Some (0, s\<lparr>wheel_pos := 0x80\<rparr>))"

text \<open>The variables as the C start-up code leaves them.\<close>

definition cv_power_on :: cv_state where
  "cv_power_on =
    \<lparr>cv_last_update_state0 = 0, cv_last_update_state1 = 0,
     cv_last_reported_state0 = 0, cv_last_reported_state1 = 0,
     wheel_pos = 0, spinner = 0, old_spinner = 0\<rparr>"

text \<open>A run of updates, one per sample; it stops where an update fails.\<close>

fun cv_updates :: "cv_pins list \<Rightarrow> cv_state \<Rightarrow> cv_state option" where
  "cv_updates [] s = Some s"
| "cv_updates (p # ps) s =
    (case colecovisionUpdate p s of None \<Rightarrow> None | Some s' \<Rightarrow> cv_updates ps s')"

definition colecovisionChanged :: "uchar \<Rightarrow> cv_state \<Rightarrow> bool" where
  "colecovisionChanged rid s \<longleftrightarrow>
    cv_last_update_state0 s \<noteq> cv_last_reported_state0 s
    \<or> cv_last_update_state1 s \<noteq> cv_last_reported_state1 s"

definition CV_REPORT_SIZE :: uchar where
  "CV_REPORT_SIZE = 5"

text \<open>The \<open>switch (but&0x0f)\<close> of the key pad; a code without a case falls through.\<close>

definition keypad_switch :: "cint \<Rightarrow> buffer \<Rightarrow> buffer" where
  "keypad_switch c b =
    (if c = 0x8 then b(3 := b 3 OR 0x04)
     else if c = 0x4 then b(3 := b 3 OR 0x08)
     else if c = 0x9 then b(3 := b 3 OR 0x10)
     else if c = 0x7 then b(3 := b 3 OR 0x20)
     else if c = 0x6 then b(3 := b 3 OR 0x40)
     else if c = 0x1 then b(3 := b 3 OR 0x80)
     else if c = 0xC then b(4 := b 4 OR 0x01)
     else if c = 0xE then b(4 := b 4 OR 0x02)
     else if c = 0x2 then b(4 := b 4 OR 0x04)
     else if c = 0xA then b(4 := b 4 OR 0x08)
     else if c = 0x3 then b(4 := b 4 OR 0x10)
     else if c = 0x5 then b(4 := b 4 OR 0x20)
     else if c = 0xD then b(4 := b 4 OR 0x40)
     else if c = 0xB then b(4 := b 4 OR 0x80)
     else b)"

text \<open>The block guarded by \<open>if (reportBuffer)\<close>.\<close>

definition colecovisionFillReport :: "cv_state \<Rightarrow> buffer \<Rightarrow> buffer" where
  "colecovisionFillReport s reportBuffer =
    (let tmp = (ucast (ucast (cv_last_update_state0 s) XOR (0xff :: cint)) :: uchar);
         but = (ucast (ucast (cv_last_update_state1 s) XOR (0xff :: cint)) :: uchar);
         x = (0x80 :: cint); y = (0x80 :: cint);
         x = (if ucast tmp AND push_bit PB3 (1 :: cint) \<noteq> 0 then 0xff else x);
         x = (if ucast tmp AND push_bit PB2 (1 :: cint) \<noteq> 0 then 0x00 else x);
         y = (if ucast tmp AND push_bit PB1 (1 :: cint) \<noteq> 0 then 0xff else y);
         y = (if ucast tmp AND push_bit PB0 (1 :: cint) \<noteq> 0 then 0x00 else y);
         b = reportBuffer(0 := ucast x);
         b = b(1 := ucast y);
         b = b(2 := ucast (wheel_pos s));
         b = b(3 := 0);
         b = b(4 := 0);
         b = or_if (ucast tmp AND push_bit PB4 (1 :: cint) \<noteq> 0) 3 0x01 b;
         b = or_if (ucast but AND push_bit PB4 (1 :: cint) \<noteq> 0) 3 0x02 b;
         b = keypad_switch (ucast but AND 0x0f) b
     in b)"

definition colecovisionBuildReport ::
  "buffer option \<Rightarrow> uchar \<Rightarrow> cv_state \<Rightarrow> buffer option \<times> uchar \<times> cv_state" where
  "colecovisionBuildReport reportBuffer rid s =
    (let rb = (case reportBuffer of
                 None \<Rightarrow> None
               | Some b \<Rightarrow> Some (colecovisionFillReport s b))
     in (rb, CV_REPORT_SIZE,
         s\<lparr>cv_last_reported_state0 := cv_last_update_state0 s,
           cv_last_reported_state1 := cv_last_update_state1 s\<rparr>))"

text \<open>
  Names for the key-pad claims: the operand of the key-pad switch for a sampled state,
  the case labels of the twelve keys (buttons 1 to 9, *, 0, #) and of the two coloured
  fire buttons (purple, blue) in the order of the source, and the button bits of a report
  (byte [4] above byte [3]) without the two fire bits that are set before the switch.
\<close>

definition cv_key_code :: "cv_state \<Rightarrow> cint" where
  "cv_key_code s =
     ucast (ucast (ucast (cv_last_update_state1 s) XOR (0xff :: cint)) :: uchar) AND 0x0f"

definition keypad_codes :: "cint list" where
  "keypad_codes = [0x8, 0x4, 0x9, 0x7, 0x6, 0x1, 0xC, 0xE, 0x2, 0xA, 0x3, 0x5]"

definition fire_codes :: "cint list" where
  "fire_codes = [0xD, 0xB]"

definition cv_keypad_bits :: "buffer \<Rightarrow> 16 word" where
  "cv_keypad_bits r = (push_bit 8 (ucast (r 4)) OR ucast (r 3)) AND 0xFFFC"

text \<open>
  The whole button field of a report, byte [4] above byte [3], and the part of it that
  the two fire lines set before the switch: bit 0 while the fire line of the first
  sample is low, bit 1 while the fire line of the second sample is low.
\<close>

definition cv_buttons :: "buffer \<Rightarrow> 16 word" where
  "cv_buttons r = push_bit 8 (ucast (r 4)) OR ucast (r 3)"

definition cv_fire_bits :: "cv_state \<Rightarrow> 16 word" where
  "cv_fire_bits s =
     (if \<not> bit (cv_last_update_state0 s) PB4 then 0x0001 else 0)
     OR (if \<not> bit (cv_last_update_state1 s) PB4 then 0x0002 else 0)"

text \<open>
  The spinner sample that an update computes from its reads, and the table index it
  forms from the previous sample and the new one.
\<close>

definition cv_sample :: "cv_pins \<Rightarrow> uchar" where
  "cv_sample p =
     ucast (drop_bit 5 (NOT (ucast (pinb_sub1 p AND 0x3F)) AND push_bit PB5 (1 :: cint))
            OR drop_bit 4
                 (NOT (ucast (ucast ((ucast (pinb_sub2 p) AND (0x1F :: cint))
                                     OR push_bit 3 (ucast (pinc_sub2 p) AND push_bit PC2 1)) :: uchar))
                  AND push_bit PB5 (1 :: cint)))"

definition quad_index :: "uchar \<Rightarrow> uchar \<Rightarrow> cint" where
  "quad_index old new = ucast new OR push_bit 2 (ucast old)"

text \<open>The fourteen button masks of one bit each, above the two fire bits.\<close>

definition one_bit_masks :: "16 word list" where
  "one_bit_masks = map (\<lambda>n. push_bit n 1) [2..<16]"

text \<open>The wheel position read as a signed number lies in 0..255.\<close>

definition wheel_in_range :: "cv_state \<Rightarrow> bool" where
  "wheel_in_range s \<longleftrightarrow> 0 \<le> sint (wheel_pos s) \<and> sint (wheel_pos s) \<le> 255"

section \<open>Request handlers and main loop (main.c)\<close>

definition MAX_REPORTS :: nat where
  "MAX_REPORTS = 8"

definition PD0 :: nat where "PD0 = 0"
definition PD2 :: nat where "PD2 = 2"

text \<open>
  The request codes and the no-message length are macros of the USB driver's header
  \<open>usbdrv/usbdrv.h\<close>, which is not among the sources: the handlers take them as a
  parameter. A C \<open>switch\<close> compiles only with pairwise different case labels.
\<close>

record usbdrv_consts =
  USBRQ_TYPE_MASK :: uchar
  USBRQ_TYPE_CLASS :: uchar
  USBRQ_HID_GET_REPORT :: uchar
  USBRQ_HID_SET_REPORT :: uchar
  USBRQ_HID_GET_IDLE :: uchar
  USBRQ_HID_SET_IDLE :: uchar
  USB_NO_MSG :: uchar

definition case_labels_distinct :: "usbdrv_consts \<Rightarrow> bool" where
  "case_labels_distinct k \<longleftrightarrow>
     distinct [USBRQ_HID_GET_REPORT k, USBRQ_HID_SET_REPORT k,
               USBRQ_HID_GET_IDLE k, USBRQ_HID_SET_IDLE k]"

text \<open>The values that the V-USB driver and the HID class definition give them.\<close>

definition vusb_consts :: usbdrv_consts where
  "vusb_consts =
    \<lparr>USBRQ_TYPE_MASK = 0x60, USBRQ_TYPE_CLASS = 0x20,
     USBRQ_HID_GET_REPORT = 0x01, USBRQ_HID_SET_REPORT = 0x09,
     USBRQ_HID_GET_IDLE = 0x02, USBRQ_HID_SET_IDLE = 0x0a,
     USB_NO_MSG = 0xff\<rparr>"

text \<open>
  The fields of the setup packet that \<open>usbFunctionSetup\<close> reads through its
  \<open>usbRequest_t\<close> pointer.
\<close>

record usbRequest =
  bmRequestType :: uchar
  bRequest :: uchar
  wValue_bytes0 :: uchar
  wValue_bytes1 :: uchar

text \<open>
  The active controller: the \<open>Gamepad\<close> structure with its function pointers, over
  the driver's own state \<open>'g\<close> and the line levels \<open>'p\<close> that an update reads.
\<close>

record ('g, 'p) Gamepad =
  num_reports :: nat
  init :: "'p \<Rightarrow> 'g \<Rightarrow> uchar \<times> 'g"
  update :: "'p \<Rightarrow> 'g \<Rightarrow> 'g"
  changed :: "uchar \<Rightarrow> 'g \<Rightarrow> bool"
  buildReport :: "buffer option \<Rightarrow> uchar \<Rightarrow> 'g \<Rightarrow> buffer option \<times> uchar \<times> 'g"

definition SegaJoy :: "(sega_state, sega_pins) Gamepad" where
  "SegaJoy =
    \<lparr>num_reports = 1,
     init = (\<lambda>p. SegaInit),
     update = SegaUpdate,
     changed = SegaChanged,
     buildReport = SegaBuildReport\<rparr>"

text \<open>What \<open>usbMsgPtr\<close> points at after a setup request.\<close>

datatype msg_ptr = NullPtr | SetupBufferPtr | IdleRatesPtr nat

text \<open>
  The firmware state: the globals of main.c (\<open>idleRates\<close> is an array of MAX_REPORTS
  bytes), the bootloader flag, the driver's state, and the parts of the machine that the
  bootloader jump touches (data memory by address, the direction register of port D, the
  global interrupt enable).
\<close>

record 'g fw_state =
  idleRates :: "uchar list"
  setupBuffer :: buffer
  reportBuffer :: buffer
  usbMsgPtr :: msg_ptr
  jumptobootloader :: uchar
  pad :: 'g
  ram :: "nat \<Rightarrow> uchar"
  DDRD :: uchar
  interrupts :: bool

definition usbFunctionSetup ::
  "usbdrv_consts \<Rightarrow> ('g, 'p) Gamepad \<Rightarrow> usbRequest \<Rightarrow> 'g fw_state \<Rightarrow> uchar \<times> 'g fw_state" where
  "usbFunctionSetup k curGamepad rq s =
    (let s = s\<lparr>usbMsgPtr := SetupBufferPtr\<rparr>
     in if bmRequestType rq AND USBRQ_TYPE_MASK k = USBRQ_TYPE_CLASS k then
          if bRequest rq = USBRQ_HID_GET_REPORT k then
            (case buildReport curGamepad (Some (setupBuffer s)) (wValue_bytes0 rq) (pad s) of
               (rb, len, g) \<Rightarrow>
                 (len, s\<lparr>setupBuffer := (case rb of None \<Rightarrow> setupBuffer s | Some b \<Rightarrow> b),
                         pad := g\<rparr>))
          else if bRequest rq = USBRQ_HID_SET_REPORT k then
            (USB_NO_MSG k, s)
          else if bRequest rq = USBRQ_HID_GET_IDLE k then
            (if 0 < unat (wValue_bytes0 rq) \<and> unat (wValue_bytes0 rq) \<le> MAX_REPORTS then
               (1, s\<lparr>usbMsgPtr := IdleRatesPtr (unat (wValue_bytes0 rq) - 1)\<rparr>)
             else (0, s))
          else if bRequest rq = USBRQ_HID_SET_IDLE k then
            (if wValue_bytes0 rq = 0 then
               (0, s\<lparr>idleRates :=
                        fold (\<lambda>i r. r[i := wValue_bytes1 rq]) [0..<MAX_REPORTS] (idleRates s)\<rparr>)
             else if 0 < unat (wValue_bytes0 rq) \<and> unat (wValue_bytes0 rq) \<le> MAX_REPORTS then
               (0, s\<lparr>idleRates := (idleRates s)[unat (wValue_bytes0 rq) - 1 := wValue_bytes1 rq]\<rparr>)
             else (0, s))
          else (0, s)
        else (0, s))"

definition usbFunctionWrite :: "buffer \<Rightarrow> uchar \<Rightarrow> 'g fw_state \<Rightarrow> uchar \<times> 'g fw_state" where
  "usbFunctionWrite data len s =
    (let s = (if data 0 = 0x5A then s\<lparr>jumptobootloader := 1\<rparr> else s)
     in (len, s))"

text \<open>
  Host traffic reaches the firmware as calls of these two handlers, made by the USB
  driver: a run of such calls, in order.
\<close>

datatype usb_call = SetupCall usbRequest | WriteCall buffer uchar

fun usb_calls ::
  "usbdrv_consts \<Rightarrow> ('g, 'p) Gamepad \<Rightarrow> usb_call list \<Rightarrow> 'g fw_state \<Rightarrow> 'g fw_state" where
  "usb_calls k gp [] s = s"
| "usb_calls k gp (SetupCall rq # cs) s = usb_calls k gp cs (snd (usbFunctionSetup k gp rq s))"
| "usb_calls k gp (WriteCall data len # cs) s =
     usb_calls k gp cs (snd (usbFunctionWrite data len s))"

text \<open>
  A store through an \<open>unsigned int\<close> pointer: two bytes, the low byte at the lower
  address (the AVR is little-endian), and the matching load.
\<close>

definition store_uint :: "nat \<Rightarrow> uint \<Rightarrow> (nat \<Rightarrow> uchar) \<Rightarrow> (nat \<Rightarrow> uchar)" where
  "store_uint a v m = m(a := ucast v, Suc a := ucast (drop_bit 8 v))"

definition load_uint :: "nat \<Rightarrow> (nat \<Rightarrow> uchar) \<Rightarrow> uint" where
  "load_uint a m = ucast (m a) OR push_bit 8 (ucast (m (Suc a)))"

text \<open>
  The start of every pass of the main event loop: the watchdog is reset, then the
  bootloader flag is looked at. With the flag set the pass never ends: interrupts are
  disabled, the boot key is stored, the USB pins are driven, and the empty \<open>for(;;);\<close>
  runs until the watchdog resets the processor. \<open>Spin\<close> carries the state in which it
  does so; \<open>Continue\<close> goes on to \<open>usbPoll\<close> and the rest of the pass.
\<close>

datatype 'g pass = Continue "'g fw_state" | Spin "'g fw_state"

definition main_loop_head :: "'g fw_state \<Rightarrow> 'g pass" where
  "main_loop_head s =
    (if jumptobootloader s \<noteq> 0 then
       (let s = s\<lparr>interrupts := False\<rparr>;
            s = s\<lparr>ram := store_uint 0x013b 0xBEEF (ram s)\<rparr>;
            s = s\<lparr>DDRD := DDRD s OR ucast (push_bit PD0 (1 :: cint) OR push_bit PD2 (1 :: cint))\<rparr>
        in Spin s)
     else Continue s)"

section \<open>Sample states and inputs\<close>

text \<open>The variables of sega.c as the C start-up code leaves them.\<close>

definition sega_power_on :: sega_state where
  "sega_power_on = \<lparr>sega_last_update_state = 0, sega_last_reported_state = 0, but3_6 = 0\<rparr>"

text \<open>Every line high except RIGHT in the first phase: right held, nothing else.\<close>

definition right_only_pins :: sega_pins where
  "right_only_pins =
    \<lparr>pinb_high = (\<lambda>i. if i = 0 then 0xF7 else 0xFF), pinc_high = (\<lambda>_. 0xFF),
     pinb_low = (\<lambda>_. 0xFF), pinc_low = (\<lambda>_. 0xFF)\<rparr>"

text \<open>All four directions held at once, on either pad.\<close>

definition sega_both :: sega_state where
  "sega_both = \<lparr>sega_last_update_state = 0x0FF0, sega_last_reported_state = 0, but3_6 = 0\<rparr>"

definition cv_both :: cv_state where
  "cv_both = cv_power_on\<lparr>cv_last_update_state0 := 0x30, cv_last_update_state1 := 0x3F\<rparr>"

text \<open>
  A six-button pad with X held: all four direction lines read low in the second low phase,
  and X shows in the third high phase. A three-button pad with LEFT held: the same line
  reads low in every high phase, and the second low phase does not read all four lines low.
\<close>

definition six_button_pins :: sega_pins where
  "six_button_pins =
    \<lparr>pinb_high = (\<lambda>i. if i = 2 then 0xFB else 0xFF), pinc_high = (\<lambda>_. 0xFF),
     pinb_low = (\<lambda>i. if i = 1 then 0xF0 else 0xFF), pinc_low = (\<lambda>_. 0xFF)\<rparr>"

definition three_button_pins :: sega_pins where
  "three_button_pins =
    \<lparr>pinb_high = (\<lambda>i. 0xFB), pinc_high = (\<lambda>_. 0xFF),
     pinb_low = (\<lambda>i. 0xF3), pinc_low = (\<lambda>_. 0xFF)\<rparr>"

text \<open>The ColecoVision lines with nothing held and the spinner at rest.\<close>

definition cv_idle_pins :: cv_pins where
  "cv_idle_pins = \<lparr>pinb_sub1 = 0x3F, pinb_sub2 = 0x1F, pinc_sub2 = 0x04\<rparr>"

text \<open>
  ColecoVision samples with nothing held but one key: key code 0b1000 (button 1), key code
  0b0100 (button 2), no key.
\<close>

definition cv_key8 :: cv_state where
  "cv_key8 = cv_power_on\<lparr>cv_last_update_state0 := 0x3F, cv_last_update_state1 := 0x37\<rparr>"

definition cv_key4 :: cv_state where
  "cv_key4 = cv_power_on\<lparr>cv_last_update_state0 := 0x3F, cv_last_update_state1 := 0x3B\<rparr>"

definition cv_nokey :: cv_state where
  "cv_nokey = cv_power_on\<lparr>cv_last_update_state0 := 0x3F, cv_last_update_state1 := 0x3F\<rparr>"

text \<open>
  Spinner samples: line A low, both lines low, line B low; a state with the wheel at 250;
  and the state that \<open>colecovisionInit\<close> leaves when it samples idle lines.
\<close>

definition spin_a :: cv_pins where
  "spin_a = \<lparr>pinb_sub1 = 0x1F, pinb_sub2 = 0x1F, pinc_sub2 = 0x04\<rparr>"

definition spin_ab :: cv_pins where
  "spin_ab = \<lparr>pinb_sub1 = 0x1F, pinb_sub2 = 0x1F, pinc_sub2 = 0x00\<rparr>"

definition spin_b :: cv_pins where
  "spin_b = \<lparr>pinb_sub1 = 0x3F, pinb_sub2 = 0x1F, pinc_sub2 = 0x00\<rparr>"

definition cv_at_250 :: cv_state where
  "cv_at_250 = cv_power_on\<lparr>wheel_pos := 250\<rparr>"

definition cv_started :: cv_state where
  "cv_started =
     cv_power_on\<lparr>cv_last_update_state0 := 0x3F, cv_last_update_state1 := 0x3F,
                 wheel_pos := 0x80\<rparr>"

text \<open>
  A firmware state with a different idle rate in every entry, and idle requests with the
  request type bytes a host sends (class request to the interface, device-to-host for
  GET_IDLE).
\<close>

definition fw_sample :: "sega_state fw_state" where
  "fw_sample =
    \<lparr>idleRates = [1, 2, 3, 4, 5, 6, 7, 8], setupBuffer = (\<lambda>_. 0), reportBuffer = (\<lambda>_. 0),
     usbMsgPtr = NullPtr, jumptobootloader = 0, pad = sega_power_on,
     ram = (\<lambda>_. 0), DDRD = 0, interrupts = True\<rparr>"

definition get_idle :: "uchar \<Rightarrow> usbRequest" where
  "get_idle n = \<lparr>bmRequestType = 0xA1, bRequest = 0x02, wValue_bytes0 = n, wValue_bytes1 = 0\<rparr>"

definition set_idle :: "uchar \<Rightarrow> uchar \<Rightarrow> usbRequest" where
  "set_idle n v = \<lparr>bmRequestType = 0x21, bRequest = 0x0a, wValue_bytes0 = n, wValue_bytes1 = v\<rparr>"

section \<open>Properties of the Sega driver\<close>

text \<open>A mask test \<open>w & (1<<n)\<close> reads bit \<open>n\<close>.\<close>

lemma test_bit: "(w :: 'a::len word) AND push_bit n 1 \<noteq> 0 \<longleftrightarrow> bit w n"
  by (simp add: and_exp_eq_0_iff_not_bit)

lemma or_if_apply: "or_if c i m b j = (if c \<and> j = i then b j OR m else b j)"
  by (simp add: or_if_def)

lemmas PB_defs = PB0_def PB1_def PB2_def PB3_def PB4_def PB5_def PC2_def

lemma upt_0_4: "[0..<4] = [0, 1, 2, 3]"
  by (simp add: upt_rec)

lemma SegaUpdate_sampled:
  "sega_last_update_state (SegaUpdate p s) =
       ucast (pinb_high p 0 AND 0x1F) OR push_bit 3 (ucast (pinc_high p 0 AND 0x04))
       OR (push_bit 2 (ucast (pinb_low p 0 AND 0x10)) OR push_bit 5 (ucast (pinc_low p 0 AND 0x04)))
       OR push_bit 8 (ucast (pinb_high p 2 AND 0x0F))"
  by (simp add: SegaUpdate_def upt_0_4 SegaUpdate_body_def Let_def PB_defs or.assoc)

lemma SegaUpdate_reported:
  "sega_last_reported_state (SegaUpdate p s) = sega_last_reported_state s"
  by (simp add: SegaUpdate_def upt_0_4 SegaUpdate_body_def Let_def PB_defs)

lemma SegaUpdate_but3_6:
  "but3_6 (SegaUpdate p s) = pinb_low p 1 AND 0x0F"
  by (simp add: SegaUpdate_def upt_0_4 SegaUpdate_body_def Let_def PB_defs)

lemma Sega_x: "SegaFillReport s b 0 =
   (if \<not> bit (sega_last_update_state s) 2 then 0x00
    else if \<not> bit (sega_last_update_state s) 3 then 0xff else 0x7f)"
  unfolding SegaFillReport_def PB_defs Let_def test_bit
  by (simp add: bit_not_iff or_if_apply)

lemma Sega_y: "SegaFillReport s b (Suc 0) =
   (if \<not> bit (sega_last_update_state s) 0 then 0x00
    else if \<not> bit (sega_last_update_state s) 1 then 0xff else 0x7f)"
  unfolding SegaFillReport_def PB_defs Let_def test_bit
  by (simp add: bit_not_iff or_if_apply)

lemma Sega_b2: "SegaFillReport s b 2 =
   (if \<not> bit (sega_last_update_state s) 6 then 0x20 else 0) OR
   (if \<not> bit (sega_last_update_state s) 4 then 0x04 else 0) OR
   (if \<not> bit (sega_last_update_state s) 5 then 0x08 else 0) OR
   (if but3_6 s = 0 \<and> \<not> bit (sega_last_update_state s) 10 then 0x01 else 0) OR
   (if but3_6 s = 0 \<and> \<not> bit (sega_last_update_state s) 9 then 0x40 else 0) OR
   (if but3_6 s = 0 \<and> \<not> bit (sega_last_update_state s) 11 then 0x02 else 0)"
  unfolding SegaFillReport_def PB_defs Let_def test_bit
  by (simp add: bit_not_iff or_if_apply)

lemma Sega_b3: "SegaFillReport s b 3 =
   (if \<not> bit (sega_last_update_state s) 7 then 0x02 else 0) OR
   (if but3_6 s = 0 \<and> \<not> bit (sega_last_update_state s) 8 then 0x01 else 0)"
  unfolding SegaFillReport_def PB_defs Let_def test_bit
  by (simp add: bit_not_iff or_if_apply)

lemma Sega_frame: "4 \<le> j \<Longrightarrow> SegaFillReport s b j = b j"
  unfolding SegaFillReport_def PB_defs Let_def test_bit
  by (simp add: bit_not_iff or_if_apply)


lemma report_bytes_4: "report_bytes 4 b = [b 0, b 1, b 2, b 3]"
  by (simp add: report_bytes_def upt_rec eval_nat_numeral)

lemma report_bytes_5: "report_bytes 5 b = [b 0, b 1, b 2, b 3, b 4]"
  by (simp add: report_bytes_def upt_rec eval_nat_numeral)

section \<open>Properties of the ColecoVision driver\<close>

lemma keypad_switch_low: "j < 3 \<Longrightarrow> keypad_switch c b j = b j"
  by (simp add: keypad_switch_def)

lemma cv_x: "colecovisionFillReport s b 0 =
   (if \<not> bit (cv_last_update_state0 s) 2 then 0x00
    else if \<not> bit (cv_last_update_state0 s) 3 then 0xff else 0x80)"
  unfolding colecovisionFillReport_def PB_defs Let_def test_bit
  by (simp add: keypad_switch_low or_if_apply bit_simps)

lemma cv_y: "colecovisionFillReport s b (Suc 0) =
   (if \<not> bit (cv_last_update_state0 s) 0 then 0x00
    else if \<not> bit (cv_last_update_state0 s) 1 then 0xff else 0x80)"
  unfolding colecovisionFillReport_def PB_defs Let_def test_bit
  by (simp add: keypad_switch_low or_if_apply bit_simps)

lemma cv_wheel: "colecovisionFillReport s b 2 = ucast (wheel_pos s)"
  unfolding colecovisionFillReport_def PB_defs Let_def test_bit
  by (simp add: keypad_switch_low or_if_apply bit_simps)

section \<open>The claims about the reports\<close>

text \<open>
  C10. When both opposing direction lines of one axis are low (held) in the sampled
  state, the report resolves the conflict towards the axis minimum, in both drivers:
  left with right gives X = 0x00, up with down gives Y = 0x00.
\<close>

theorem opposing_directions_resolve_to_minimum:
  "(\<not> bit (sega_last_update_state s) PB2 \<and> \<not> bit (sega_last_update_state s) PB3 \<longrightarrow>
      map_option (\<lambda>r. r 0) (fst (SegaBuildReport (Some b) rid s)) = Some 0x00)
   \<and> (\<not> bit (sega_last_update_state s) PB0 \<and> \<not> bit (sega_last_update_state s) PB1 \<longrightarrow>
      map_option (\<lambda>r. r 1) (fst (SegaBuildReport (Some b) rid s)) = Some 0x00)
   \<and> (\<not> bit (cv_last_update_state0 c) PB2 \<and> \<not> bit (cv_last_update_state0 c) PB3 \<longrightarrow>
      map_option (\<lambda>r. r 0) (fst (colecovisionBuildReport (Some b) rid c)) = Some 0x00)
   \<and> (\<not> bit (cv_last_update_state0 c) PB0 \<and> \<not> bit (cv_last_update_state0 c) PB1 \<longrightarrow>
      map_option (\<lambda>r. r 1) (fst (colecovisionBuildReport (Some b) rid c)) = Some 0x00)"
  by (simp add: SegaBuildReport_def colecovisionBuildReport_def Sega_x Sega_y cv_x cv_y PB_defs)

theorem opposing_directions_witness:
  "(\<not> bit (sega_last_update_state sega_both) PB2 \<and> \<not> bit (sega_last_update_state sega_both) PB3)
   \<and> (\<not> bit (sega_last_update_state sega_both) PB0 \<and> \<not> bit (sega_last_update_state sega_both) PB1)
   \<and> (\<not> bit (cv_last_update_state0 cv_both) PB2 \<and> \<not> bit (cv_last_update_state0 cv_both) PB3)
   \<and> (\<not> bit (cv_last_update_state0 cv_both) PB0 \<and> \<not> bit (cv_last_update_state0 cv_both) PB1)
   \<and> map_option (\<lambda>r. r 0) (fst (SegaBuildReport (Some (\<lambda>_. 0xAA)) 1 sega_both)) = Some 0x00
   \<and> map_option (\<lambda>r. r 1) (fst (SegaBuildReport (Some (\<lambda>_. 0xAA)) 1 sega_both)) = Some 0x00
   \<and> map_option (\<lambda>r. r 0) (fst (colecovisionBuildReport (Some (\<lambda>_. 0xAA)) 1 cv_both)) = Some 0x00
   \<and> map_option (\<lambda>r. r 1) (fst (colecovisionBuildReport (Some (\<lambda>_. 0xAA)) 1 cv_both)) = Some 0x00"
  using opposing_directions_resolve_to_minimum [of sega_both "\<lambda>_. 0xAA" 1 cv_both]
  by (simp add: sega_both_def cv_both_def cv_power_on_def PB_defs)

text \<open>The sampled word of a pad with only RIGHT held, bit by bit.\<close>

lemma bits_of_right:
  assumes "(w::16 word) AND 0x0FFF = 0x0FF7"
  shows "\<not> bit w 3 \<and> bit w 0 \<and> bit w 1 \<and> bit w 2 \<and> bit w 4 \<and> bit w 5 \<and> bit w 6 \<and> bit w 7 \<and>
    bit w 8 \<and> bit w 9 \<and> bit w 10 \<and> bit w 11"
proof -
  have *: "bit (w AND 0x0FFF) n = bit (0x0FF7 :: 16 word) n" for n
    using assms by simp
  show ?thesis
    using *[of 3] *[of 0] *[of 1] *[of 2] *[of 4] *[of 5] *[of 6] *[of 7] *[of 8] *[of 9]
      *[of 10] *[of 11]
    by (simp add: bit_and_iff)
qed

text \<open>
  C6. A Sega sampled state in which only the RIGHT line is low and every other line of
  bits 0 to 11 is high gives the four report bytes 0xFF, 0x7F, 0x00, 0x00, whatever the
  3-or-6-button discriminator holds. (Bits 12 to 15 of the sampled word are never set by
  an update and are not looked at.)
\<close>

theorem sega_right_pressed_report:
  "sega_last_update_state s AND 0x0FFF = 0x0FF7 \<Longrightarrow>
     map_option (report_bytes 4) (fst (SegaBuildReport (Some b) rid s)) = Some [0xFF, 0x7F, 0x00, 0x00]
     \<and> fst (snd (SegaBuildReport (Some b) rid s)) = 4"
  by (drule bits_of_right)
    (simp add: SegaBuildReport_def report_bytes_4 Sega_x Sega_y Sega_b2 Sega_b3
      SEGA_REPORT_SIZE_def)

theorem sega_right_pressed_witness:
  "sega_last_update_state (SegaUpdate right_only_pins sega_power_on) AND 0x0FFF = 0x0FF7
   \<and> map_option (report_bytes 4)
        (fst (SegaBuildReport (Some (\<lambda>_. 0xAA)) 1 (SegaUpdate right_only_pins sega_power_on)))
      = Some [0xFF, 0x7F, 0x00, 0x00]"
proof -
  have h: "sega_last_update_state (SegaUpdate right_only_pins sega_power_on) AND 0x0FFF = 0x0FF7"
    by (simp add: SegaUpdate_sampled right_only_pins_def)
  show ?thesis
    using h sega_right_pressed_report [OF h, of "\<lambda>_. 0xAA" 1] by simp
qed

text \<open>
  On a three-button pad the third high phase reads the directions again, so RIGHT also
  shows in bit 11; the discriminator is then non-zero and the report is the same.
\<close>

lemma sega_right_pressed_three_button:
  assumes "sega_last_update_state s AND 0x00FF = 0x00F7" and "but3_6 s \<noteq> 0"
  shows "map_option (report_bytes 4) (fst (SegaBuildReport (Some b) rid s))
           = Some [0xFF, 0x7F, 0x00, 0x00]"
proof -
  have *: "bit (sega_last_update_state s AND 0x00FF) n = bit (0x00F7 :: 16 word) n" for n
    using assms(1) by simp
  have "\<not> bit (sega_last_update_state s) 3 \<and> bit (sega_last_update_state s) 0
      \<and> bit (sega_last_update_state s) 1 \<and> bit (sega_last_update_state s) 2
      \<and> bit (sega_last_update_state s) 4 \<and> bit (sega_last_update_state s) 5
      \<and> bit (sega_last_update_state s) 6 \<and> bit (sega_last_update_state s) 7"
    using *[of 3] *[of 0] *[of 1] *[of 2] *[of 4] *[of 5] *[of 6] *[of 7]
    by (simp add: bit_and_iff)
  then show ?thesis
    using assms(2)
    by (simp add: SegaBuildReport_def report_bytes_4 Sega_x Sega_y Sega_b2 Sega_b3)
qed



lemma sega_xyzm_fill:
  "sega_xyzm (SegaFillReport s b) =
    (if but3_6 s = 0 then
       (\<not> bit (sega_last_update_state s) 10, \<not> bit (sega_last_update_state s) 9,
        \<not> bit (sega_last_update_state s) 8, \<not> bit (sega_last_update_state s) 11)
     else (False, False, False, False))"
  by (simp add: sega_xyzm_def Sega_b2 Sega_b3 bit_or_iff)

text \<open>
  C5. With a non-zero discriminator (three-button profile) the report has the X, Y, Z and
  MODE bits clear whatever bits 8 to 11 of the sampled word hold; with a zero discriminator
  (six-button profile) each of these report bits is set exactly when its line in the
  sampled word is low. The discriminator is what the update read in its second low phase.
\<close>

theorem sega_extra_buttons_follow_discriminator:
  "(but3_6 s \<noteq> 0 \<longrightarrow>
      map_option sega_xyzm (fst (SegaBuildReport (Some b) rid s)) = Some (False, False, False, False))
   \<and> (but3_6 s = 0 \<longrightarrow>
      map_option sega_xyzm (fst (SegaBuildReport (Some b) rid s)) =
        Some (\<not> bit (sega_last_update_state s) 10, \<not> bit (sega_last_update_state s) 9,
              \<not> bit (sega_last_update_state s) 8, \<not> bit (sega_last_update_state s) 11))
   \<and> but3_6 (SegaUpdate p s) = pinb_low p 1 AND 0x0F"
  by (simp add: SegaBuildReport_def sega_xyzm_fill SegaUpdate_but3_6)

theorem sega_extra_buttons_witness:
  "but3_6 (SegaUpdate three_button_pins sega_power_on) \<noteq> 0
   \<and> \<not> bit (sega_last_update_state (SegaUpdate three_button_pins sega_power_on)) 10
   \<and> map_option sega_xyzm
        (fst (SegaBuildReport (Some (\<lambda>_. 0xAA)) 1 (SegaUpdate three_button_pins sega_power_on)))
      = Some (False, False, False, False)
   \<and> but3_6 (SegaUpdate six_button_pins sega_power_on) = 0
   \<and> map_option sega_xyzm
        (fst (SegaBuildReport (Some (\<lambda>_. 0xAA)) 1 (SegaUpdate six_button_pins sega_power_on)))
      = Some (True, False, False, False)"
  using sega_extra_buttons_follow_discriminator
          [of "SegaUpdate three_button_pins sega_power_on" "\<lambda>_. 0xAA" 1 three_button_pins]
        sega_extra_buttons_follow_discriminator
          [of "SegaUpdate six_button_pins sega_power_on" "\<lambda>_. 0xAA" 1 six_button_pins]
  by (simp add: SegaUpdate_but3_6 SegaUpdate_sampled three_button_pins_def six_button_pins_def
        bit_or_iff)

text \<open>
  C4. For either driver, any report id and any buffer argument, null included,
  \<open>buildReport\<close> makes the last-reported state equal to the last-sampled state and
  returns the report length, 4 for Sega and 5 for ColecoVision. With a null buffer no
  buffer is written, and the new state and the returned length are those of a call with a
  buffer.
\<close>

theorem buildReport_acknowledges_and_returns_length:
  "snd (SegaBuildReport rb rid s) = (4, s\<lparr>sega_last_reported_state := sega_last_update_state s\<rparr>)
   \<and> sega_last_reported_state (snd (snd (SegaBuildReport rb rid s)))
       = sega_last_update_state (snd (snd (SegaBuildReport rb rid s)))
   \<and> fst (SegaBuildReport None rid s) = None
   \<and> snd (SegaBuildReport None rid s) = snd (SegaBuildReport rb rid s)
   \<and> snd (colecovisionBuildReport rb rid c)
       = (5, c\<lparr>cv_last_reported_state0 := cv_last_update_state0 c,
                cv_last_reported_state1 := cv_last_update_state1 c\<rparr>)
   \<and> cv_last_reported_state0 (snd (snd (colecovisionBuildReport rb rid c)))
       = cv_last_update_state0 (snd (snd (colecovisionBuildReport rb rid c)))
   \<and> cv_last_reported_state1 (snd (snd (colecovisionBuildReport rb rid c)))
       = cv_last_update_state1 (snd (snd (colecovisionBuildReport rb rid c)))
   \<and> fst (colecovisionBuildReport None rid c) = None
   \<and> snd (colecovisionBuildReport None rid c) = snd (colecovisionBuildReport rb rid c)"
  by (simp add: SegaBuildReport_def colecovisionBuildReport_def SEGA_REPORT_SIZE_def
        CV_REPORT_SIZE_def)

text \<open>No update touches the last-reported state.\<close>

lemma sega_updates_reported:
  "sega_last_reported_state (sega_updates ps s) = sega_last_reported_state s"
  by (induction ps arbitrary: s) (simp_all add: SegaUpdate_reported)

lemma colecovisionUpdate_reported:
  "colecovisionUpdate p s = Some s' \<Longrightarrow>
     cv_last_reported_state0 s' = cv_last_reported_state0 s
     \<and> cv_last_reported_state1 s' = cv_last_reported_state1 s"
  by (auto simp: colecovisionUpdate_def Let_def split: option.splits)

lemma cv_updates_reported:
  "cv_updates ps s = Some s' \<Longrightarrow>
     cv_last_reported_state0 s' = cv_last_reported_state0 s
     \<and> cv_last_reported_state1 s' = cv_last_reported_state1 s"
proof (induction ps arbitrary: s)
  case Nil
  then show ?case by simp
next
  case (Cons p ps)
  then obtain t where t: "colecovisionUpdate p s = Some t" and r: "cv_updates ps t = Some s'"
    by (auto split: option.splits)
  from Cons.IH [OF r] colecovisionUpdate_reported [OF t] show ?case by simp
qed

text \<open>
  C3. Right after any \<open>buildReport\<close> call, with or without a buffer, \<open>changed\<close> is
  false for every report id. After any later updates that leave the sampled state
  different from the one that was reported, \<open>changed\<close> is true.
\<close>

theorem changed_after_buildReport_and_update:
  "\<not> SegaChanged rid' (snd (snd (SegaBuildReport rb rid s)))
   \<and> (sega_last_update_state (sega_updates ps (snd (snd (SegaBuildReport rb rid s))))
         \<noteq> sega_last_update_state s
       \<longrightarrow> SegaChanged rid' (sega_updates ps (snd (snd (SegaBuildReport rb rid s)))))
   \<and> \<not> colecovisionChanged rid' (snd (snd (colecovisionBuildReport rb rid c)))
   \<and> (cv_updates qs (snd (snd (colecovisionBuildReport rb rid c))) = Some c'
       \<and> (cv_last_update_state0 c' \<noteq> cv_last_update_state0 c
            \<or> cv_last_update_state1 c' \<noteq> cv_last_update_state1 c)
       \<longrightarrow> colecovisionChanged rid' c')"
proof -
  have "cv_updates qs (snd (snd (colecovisionBuildReport rb rid c))) = Some c' \<Longrightarrow>
     cv_last_reported_state0 c' = cv_last_update_state0 c
     \<and> cv_last_reported_state1 c' = cv_last_update_state1 c"
    by (drule cv_updates_reported) (simp add: colecovisionBuildReport_def)
  then show ?thesis
    by (auto simp: SegaChanged_def colecovisionChanged_def sega_updates_reported
          SegaBuildReport_def colecovisionBuildReport_def)
qed

theorem changed_witness:
  "sega_last_update_state
       (sega_updates [right_only_pins] (snd (snd (SegaBuildReport None 1 sega_power_on))))
     \<noteq> sega_last_update_state sega_power_on
   \<and> SegaChanged 1 (sega_updates [right_only_pins] (snd (snd (SegaBuildReport None 1 sega_power_on))))
   \<and> (\<exists>c'. cv_updates [cv_idle_pins] (snd (snd (colecovisionBuildReport None 1 cv_power_on))) = Some c'
         \<and> cv_last_update_state0 c' \<noteq> cv_last_update_state0 cv_power_on
         \<and> colecovisionChanged 1 c')"
proof -
  let ?c = "cv_power_on\<lparr>cv_last_update_state0 := 0x3F, cv_last_update_state1 := 0x3F\<rparr>"
  have u: "cv_updates [cv_idle_pins] (snd (snd (colecovisionBuildReport None 1 cv_power_on))) = Some ?c"
    by (simp add: colecovisionBuildReport_def colecovisionUpdate_def cv_idle_pins_def
          cv_power_on_def Let_def QEM_at_def QEM_def PB_defs MULT_def clip_def)
  have d: "cv_last_update_state0 ?c \<noteq> cv_last_update_state0 cv_power_on"
    by (simp add: cv_power_on_def)
  have h: "sega_last_update_state
       (sega_updates [right_only_pins] (snd (snd (SegaBuildReport None 1 sega_power_on))))
     \<noteq> sega_last_update_state sega_power_on"
    by (simp add: SegaUpdate_sampled right_only_pins_def sega_power_on_def)
  from changed_after_buildReport_and_update
         [of 1 None 1 sega_power_on "[right_only_pins]" cv_power_on "[cv_idle_pins]" ?c]
       u d h
  show ?thesis by simp
qed


section \<open>The claims about the key pad and the spinner\<close>

text \<open>Bytes [3] and [4] of the ColecoVision report, by key code.\<close>

lemma cv_b3: "colecovisionFillReport s b 3 =
   (let f = (if \<not> bit (cv_last_update_state0 s) 4 then 0x01 else 0) OR
            (if \<not> bit (cv_last_update_state1 s) 4 then 0x02 else 0);
        c = cv_key_code s
    in if c = 0x8 then f OR 0x04 else if c = 0x4 then f OR 0x08
       else if c = 0x9 then f OR 0x10 else if c = 0x7 then f OR 0x20
       else if c = 0x6 then f OR 0x40 else if c = 0x1 then f OR 0x80 else f)"
  unfolding colecovisionFillReport_def PB_defs Let_def test_bit cv_key_code_def
  by (simp add: keypad_switch_def or_if_apply bit_simps)

lemma cv_b4: "colecovisionFillReport s b 4 =
   (let c = cv_key_code s
    in if c = 0xC then 0x01 else if c = 0xE then 0x02
       else if c = 0x2 then 0x04 else if c = 0xA then 0x08
       else if c = 0x3 then 0x10 else if c = 0x5 then 0x20
       else if c = 0xD then 0x40 else if c = 0xB then 0x80 else 0)"
  unfolding colecovisionFillReport_def PB_defs Let_def test_bit cv_key_code_def
  by (simp add: keypad_switch_def or_if_apply bit_simps)

lemma cv_keypad_bits_eq:
  "cv_keypad_bits (colecovisionFillReport s b) =
    (let c = cv_key_code s
     in if c = 0x8 then 0x0004 else if c = 0x4 then 0x0008
       else if c = 0x9 then 0x0010 else if c = 0x7 then 0x0020
       else if c = 0x6 then 0x0040 else if c = 0x1 then 0x0080
       else if c = 0xC then 0x0100 else if c = 0xE then 0x0200
       else if c = 0x2 then 0x0400 else if c = 0xA then 0x0800
       else if c = 0x3 then 0x1000 else if c = 0x5 then 0x2000
       else if c = 0xD then 0x4000 else if c = 0xB then 0x8000 else 0)"
  unfolding cv_keypad_bits_def cv_b3 cv_b4 Let_def
  by (cases "\<not> bit (cv_last_update_state0 s) 4"; cases "\<not> bit (cv_last_update_state1 s) 4")
    simp_all

lemma one_bit_masks_eq:
  "set one_bit_masks =
     {0x4, 0x8, 0x10, 0x20, 0x40, 0x80, 0x100, 0x200, 0x400, 0x800, 0x1000, 0x2000, 0x4000, 0x8000}"
  by (simp add: one_bit_masks_def upt_rec)

lemma key_code_cases:
  "c \<in> set (keypad_codes @ fire_codes) \<longleftrightarrow>
     c = 0x8 \<or> c = 0x4 \<or> c = 0x9 \<or> c = 0x7 \<or> c = 0x6 \<or> c = 0x1 \<or> c = 0xC \<or> c = 0xE
     \<or> c = 0x2 \<or> c = 0xA \<or> c = 0x3 \<or> c = 0x5 \<or> c = 0xD \<or> c = 0xB"
  by (simp add: keypad_codes_def fire_codes_def)

lemma key_one_bit:
  "cv_key_code s \<in> set (keypad_codes @ fire_codes) \<Longrightarrow>
     cv_keypad_bits (colecovisionFillReport s b) \<in> set one_bit_masks"
  unfolding key_code_cases one_bit_masks_eq cv_keypad_bits_eq Let_def
  by (elim disjE) simp_all

lemma key_distinct:
  "cv_key_code s \<in> set (keypad_codes @ fire_codes) \<Longrightarrow>
   cv_key_code s' \<in> set (keypad_codes @ fire_codes) \<Longrightarrow>
   cv_key_code s \<noteq> cv_key_code s' \<Longrightarrow>
     cv_keypad_bits (colecovisionFillReport s b) \<noteq> cv_keypad_bits (colecovisionFillReport s' b')"
  unfolding key_code_cases cv_keypad_bits_eq Let_def
  by (elim disjE) simp_all

lemma key_undefined:
  "cv_key_code s \<notin> set (keypad_codes @ fire_codes) \<Longrightarrow>
     cv_keypad_bits (colecovisionFillReport s b) = 0"
  unfolding key_code_cases cv_keypad_bits_eq Let_def
  by simp

lemma key8_alone:
  "cv_key_code s = 0x8 \<Longrightarrow> bit (cv_last_update_state0 s) PB4 \<Longrightarrow>
   bit (cv_last_update_state1 s) PB4 \<Longrightarrow>
     colecovisionFillReport s b 3 = 0x04 \<and> colecovisionFillReport s b 4 = 0x00"
  by (simp add: cv_b3 cv_b4 PB_defs)

text \<open>The whole button field: the fire bits and the key bit.\<close>

lemma cv_buttons_split:
  "cv_buttons (colecovisionFillReport s b)
     = cv_fire_bits s OR cv_keypad_bits (colecovisionFillReport s b)"
  unfolding cv_buttons_def cv_keypad_bits_def cv_fire_bits_def cv_b3 cv_b4 Let_def PB_defs
  by (cases "\<not> bit (cv_last_update_state0 s) 4"; cases "\<not> bit (cv_last_update_state1 s) 4")
    simp_all

lemma cv_fire_released:
  "bit (cv_last_update_state0 s) PB4 \<Longrightarrow> bit (cv_last_update_state1 s) PB4 \<Longrightarrow>
     cv_fire_bits s = 0"
  by (simp add: cv_fire_bits_def)

lemma cv_button_bytes:
  "bit (cv_last_update_state0 s) PB4 \<Longrightarrow> bit (cv_last_update_state1 s) PB4 \<Longrightarrow>
   (colecovisionFillReport s b 3, colecovisionFillReport s b 4) =
     (let c = cv_key_code s
      in if c = 0x8 then (0x04, 0x00) else if c = 0x4 then (0x08, 0x00)
         else if c = 0x9 then (0x10, 0x00) else if c = 0x7 then (0x20, 0x00)
         else if c = 0x6 then (0x40, 0x00) else if c = 0x1 then (0x80, 0x00)
         else if c = 0xC then (0x00, 0x01) else if c = 0xE then (0x00, 0x02)
         else if c = 0x2 then (0x00, 0x04) else if c = 0xA then (0x00, 0x08)
         else if c = 0x3 then (0x00, 0x10) else if c = 0x5 then (0x00, 0x20)
         else if c = 0xD then (0x00, 0x40) else if c = 0xB then (0x00, 0x80)
         else (0x00, 0x00))"
  by (simp add: cv_b3 cv_b4 Let_def PB_defs)


lemma key_whole_one_bit:
  "cv_key_code s \<in> set (keypad_codes @ fire_codes) \<Longrightarrow>
   bit (cv_last_update_state0 s) PB4 \<Longrightarrow> bit (cv_last_update_state1 s) PB4 \<Longrightarrow>
     cv_buttons (colecovisionFillReport s b) \<in> set one_bit_masks"
  by (simp add: cv_buttons_split cv_fire_released key_one_bit del: set_append)

lemma key_whole_distinct:
  "cv_key_code s \<in> set (keypad_codes @ fire_codes) \<Longrightarrow>
   cv_key_code s' \<in> set (keypad_codes @ fire_codes) \<Longrightarrow>
   cv_key_code s \<noteq> cv_key_code s' \<Longrightarrow>
   bit (cv_last_update_state0 s) PB4 \<Longrightarrow> bit (cv_last_update_state1 s) PB4 \<Longrightarrow>
   bit (cv_last_update_state0 s') PB4 \<Longrightarrow> bit (cv_last_update_state1 s') PB4 \<Longrightarrow>
     cv_buttons (colecovisionFillReport s b) \<noteq> cv_buttons (colecovisionFillReport s' b')"
  using key_distinct [of s s' b b']
  by (simp add: cv_buttons_split cv_fire_released del: set_append)

lemma key_whole_undefined:
  "cv_key_code s \<notin> set (keypad_codes @ fire_codes) \<Longrightarrow>
     cv_buttons (colecovisionFillReport s b) = cv_fire_bits s"
  by (simp add: cv_buttons_split key_undefined del: set_append)

text \<open>
  C7. In the ColecoVision report built with both fire lines released, bytes [3] and [4]
  are, for each of the twelve key codes and of the two coloured fire codes, exactly the
  one bit that the code's line of the table below names and no other bit of either byte;
  different codes give different bits; every other code gives both bytes 0. Code 0b1000
  gives byte [3] = 0b00000100 and byte [4] = 0. With a fire line held, the button field is
  the fire bits together with that same one bit (or the fire bits alone for a code without
  a case).
\<close>

theorem keypad_codes_set_one_distinct_bit:
  "(bit (cv_last_update_state0 s) PB4 \<and> bit (cv_last_update_state1 s) PB4 \<longrightarrow>
      map_option (\<lambda>r. (r 3, r 4)) (fst (colecovisionBuildReport (Some b) rid s)) =
        Some (let c = cv_key_code s
              in if c = 0x8 then (0x04, 0x00) else if c = 0x4 then (0x08, 0x00)
                 else if c = 0x9 then (0x10, 0x00) else if c = 0x7 then (0x20, 0x00)
                 else if c = 0x6 then (0x40, 0x00) else if c = 0x1 then (0x80, 0x00)
                 else if c = 0xC then (0x00, 0x01) else if c = 0xE then (0x00, 0x02)
                 else if c = 0x2 then (0x00, 0x04) else if c = 0xA then (0x00, 0x08)
                 else if c = 0x3 then (0x00, 0x10) else if c = 0x5 then (0x00, 0x20)
                 else if c = 0xD then (0x00, 0x40) else if c = 0xB then (0x00, 0x80)
                 else (0x00, 0x00)))
   \<and> (cv_key_code s \<in> set (keypad_codes @ fire_codes)
       \<and> bit (cv_last_update_state0 s) PB4 \<and> bit (cv_last_update_state1 s) PB4 \<longrightarrow>
      (\<exists>r. fst (colecovisionBuildReport (Some b) rid s) = Some r
           \<and> cv_buttons r \<in> set one_bit_masks))
   \<and> (cv_key_code s \<in> set (keypad_codes @ fire_codes)
       \<and> cv_key_code s' \<in> set (keypad_codes @ fire_codes)
       \<and> cv_key_code s \<noteq> cv_key_code s'
       \<and> bit (cv_last_update_state0 s) PB4 \<and> bit (cv_last_update_state1 s) PB4
       \<and> bit (cv_last_update_state0 s') PB4 \<and> bit (cv_last_update_state1 s') PB4 \<longrightarrow>
      map_option cv_buttons (fst (colecovisionBuildReport (Some b) rid s))
        \<noteq> map_option cv_buttons (fst (colecovisionBuildReport (Some b') rid' s')))
   \<and> (cv_key_code s \<notin> set (keypad_codes @ fire_codes)
       \<and> bit (cv_last_update_state0 s) PB4 \<and> bit (cv_last_update_state1 s) PB4 \<longrightarrow>
      map_option (\<lambda>r. (r 3, r 4)) (fst (colecovisionBuildReport (Some b) rid s))
        = Some (0x00, 0x00))
   \<and> (cv_key_code s \<in> set (keypad_codes @ fire_codes) \<longrightarrow>
      (\<exists>r. fst (colecovisionBuildReport (Some b) rid s) = Some r
           \<and> cv_buttons r = cv_fire_bits s OR cv_keypad_bits r
           \<and> cv_keypad_bits r \<in> set one_bit_masks))
   \<and> (cv_key_code s \<in> set (keypad_codes @ fire_codes)
       \<and> cv_key_code s' \<in> set (keypad_codes @ fire_codes)
       \<and> cv_key_code s \<noteq> cv_key_code s' \<longrightarrow>
      map_option cv_keypad_bits (fst (colecovisionBuildReport (Some b) rid s))
        \<noteq> map_option cv_keypad_bits (fst (colecovisionBuildReport (Some b') rid' s')))
   \<and> (cv_key_code s \<notin> set (keypad_codes @ fire_codes) \<longrightarrow>
      map_option cv_buttons (fst (colecovisionBuildReport (Some b) rid s))
        = Some (cv_fire_bits s))
   \<and> (cv_key_code s = 0x8 \<and> bit (cv_last_update_state0 s) PB4
       \<and> bit (cv_last_update_state1 s) PB4 \<longrightarrow>
      map_option (\<lambda>r. (r 3, r 4)) (fst (colecovisionBuildReport (Some b) rid s))
        = Some (0x04, 0x00))
   \<and> length keypad_codes = 12 \<and> length fire_codes = 2 \<and> distinct (keypad_codes @ fire_codes)"
proof -
  have f: "fst (colecovisionBuildReport (Some b) rid s) = Some (colecovisionFillReport s b)"
    "fst (colecovisionBuildReport (Some b') rid' s') = Some (colecovisionFillReport s' b')"
    by (simp_all add: colecovisionBuildReport_def)
  have u: "cv_key_code s \<notin> set (keypad_codes @ fire_codes) \<Longrightarrow>
      bit (cv_last_update_state0 s) PB4 \<Longrightarrow> bit (cv_last_update_state1 s) PB4 \<Longrightarrow>
      (colecovisionFillReport s b 3, colecovisionFillReport s b 4) = (0x00, 0x00)"
    unfolding key_code_cases by (simp add: cv_button_bytes Let_def)
  have l: "length keypad_codes = 12 \<and> length fire_codes = 2 \<and> distinct (keypad_codes @ fire_codes)"
    by (simp add: keypad_codes_def fire_codes_def)
  show ?thesis
    unfolding f
    using cv_button_bytes [of s b] key_whole_one_bit [of s b] key_whole_distinct [of s s' b b']
      u cv_buttons_split [of s b] key_one_bit [of s b] key_distinct [of s s' b b']
      key_whole_undefined [of s b] key8_alone [of s b] l
    by (simp del: set_append)
qed

theorem keypad_codes_witness:
  "cv_key_code cv_key8 = 0x8 \<and> cv_key_code cv_key4 = 0x4 \<and> cv_key_code cv_nokey = 0x0
   \<and> cv_key_code cv_key8 \<in> set (keypad_codes @ fire_codes)
   \<and> cv_key_code cv_key4 \<in> set (keypad_codes @ fire_codes)
   \<and> cv_key_code cv_nokey \<notin> set (keypad_codes @ fire_codes)
   \<and> bit (cv_last_update_state0 cv_key8) PB4 \<and> bit (cv_last_update_state1 cv_key8) PB4
   \<and> bit (cv_last_update_state0 cv_key4) PB4 \<and> bit (cv_last_update_state1 cv_key4) PB4
   \<and> bit (cv_last_update_state0 cv_nokey) PB4 \<and> bit (cv_last_update_state1 cv_nokey) PB4
   \<and> map_option (\<lambda>r. (r 3, r 4)) (fst (colecovisionBuildReport (Some (\<lambda>_. 0xAA)) 1 cv_key8))
        = Some (0x04, 0x00)
   \<and> map_option (\<lambda>r. (r 3, r 4)) (fst (colecovisionBuildReport (Some (\<lambda>_. 0x55)) 1 cv_key4))
        = Some (0x08, 0x00)
   \<and> map_option (\<lambda>r. (r 3, r 4)) (fst (colecovisionBuildReport (Some (\<lambda>_. 0xAA)) 1 cv_nokey))
        = Some (0x00, 0x00)
   \<and> map_option cv_buttons (fst (colecovisionBuildReport (Some (\<lambda>_. 0xAA)) 1 cv_key8))
        \<noteq> map_option cv_buttons (fst (colecovisionBuildReport (Some (\<lambda>_. 0x55)) 1 cv_key4))
   \<and> map_option cv_keypad_bits (fst (colecovisionBuildReport (Some (\<lambda>_. 0xAA)) 1 cv_key8))
        \<noteq> map_option cv_keypad_bits (fst (colecovisionBuildReport (Some (\<lambda>_. 0x55)) 1 cv_key4))
   \<and> map_option cv_buttons (fst (colecovisionBuildReport (Some (\<lambda>_. 0xAA)) 1 cv_nokey))
        = Some (cv_fire_bits cv_nokey)
   \<and> (\<exists>r. fst (colecovisionBuildReport (Some (\<lambda>_. 0xAA)) 1 cv_key8) = Some r
           \<and> cv_buttons r \<in> set one_bit_masks)"
proof -
  have c: "cv_key_code cv_key8 = 0x8" "cv_key_code cv_key4 = 0x4" "cv_key_code cv_nokey = 0x0"
    by (simp_all add: cv_key_code_def cv_key8_def cv_key4_def cv_nokey_def)
  have f: "bit (cv_last_update_state0 cv_key8) PB4" "bit (cv_last_update_state1 cv_key8) PB4"
    "bit (cv_last_update_state0 cv_key4) PB4" "bit (cv_last_update_state1 cv_key4) PB4"
    "bit (cv_last_update_state0 cv_nokey) PB4" "bit (cv_last_update_state1 cv_nokey) PB4"
    by (simp_all add: cv_key8_def cv_key4_def cv_nokey_def PB_defs)
  have m: "cv_key_code cv_key8 \<in> set (keypad_codes @ fire_codes)"
    "cv_key_code cv_key4 \<in> set (keypad_codes @ fire_codes)"
    "cv_key_code cv_nokey \<notin> set (keypad_codes @ fire_codes)"
    by (simp_all add: c keypad_codes_def fire_codes_def)
  have d: "cv_key_code cv_key8 \<noteq> cv_key_code cv_key4"
    by (simp add: c)
  note t8 = keypad_codes_set_one_distinct_bit [of cv_key8 "\<lambda>_. 0xAA" 1 cv_key4 "\<lambda>_. 0x55" 1]
  note t4 = keypad_codes_set_one_distinct_bit [of cv_key4 "\<lambda>_. 0x55" 1 cv_key8 "\<lambda>_. 0xAA" 1]
  note t0 = keypad_codes_set_one_distinct_bit [of cv_nokey "\<lambda>_. 0xAA" 1 cv_key4 "\<lambda>_. 0x55" 1]
  have b8: "map_option (\<lambda>r. (r 3, r 4)) (fst (colecovisionBuildReport (Some (\<lambda>_. 0xAA)) 1 cv_key8))
        = Some (0x04, 0x00)"
    using t8 c f by blast
  have b4: "map_option (\<lambda>r. (r 3, r 4)) (fst (colecovisionBuildReport (Some (\<lambda>_. 0x55)) 1 cv_key4))
        = Some (0x08, 0x00)"
    using conjunct1 [OF t4] c(2) f by simp
  have b0: "map_option (\<lambda>r. (r 3, r 4)) (fst (colecovisionBuildReport (Some (\<lambda>_. 0xAA)) 1 cv_nokey))
        = Some (0x00, 0x00)"
    using t0 m f by blast
  show ?thesis
    using t8 t0 c f m d b8 b4 b0 by blast
qed


text \<open>The spinner sample and the table entry of an update.\<close>

lemma and_exp_if: "(w :: 'a::len word) AND 2 ^ k = (if bit w k then 2 ^ k else 0)"
  by (rule bit_word_eqI) (auto simp: bit_and_iff bit_exp_iff)

lemma and_1_if: "(w :: 'a::len word) AND 1 = (if bit w 0 then 1 else 0)"
  using and_exp_if [of w 0] by simp

lemma and_2_if: "(w :: 'a::len word) AND 2 = (if bit w 1 then 2 else 0)"
  using and_exp_if [of w 1] by simp

lemma cv_sample_eq:
  "cv_sample p = (if bit (pinb_sub1 p) 5 then 0 else 1) OR (if bit (pinc_sub2 p) 2 then 0 else 2)"
  by (simp add: cv_sample_def PB_defs and_1_if and_2_if bit_simps)

lemma cv_sample_cases: "cv_sample p = 0 \<or> cv_sample p = 1 \<or> cv_sample p = 2 \<or> cv_sample p = 3"
  by (simp add: cv_sample_eq)

lemma le3_cases: "(w :: uchar) \<le> 3 \<longleftrightarrow> w = 0 \<or> w = 1 \<or> w = 2 \<or> w = 3"
proof
  assume "w \<le> 3"
  then have "unat w \<le> 3" by (simp add: word_le_nat_alt)
  then have "unat w = 0 \<or> unat w = 1 \<or> unat w = 2 \<or> unat w = 3" by arith
  then show "w = 0 \<or> w = 1 \<or> w = 2 \<or> w = 3"
    by (simp add: word_unat_eq_iff)
next
  assume "w = 0 \<or> w = 1 \<or> w = 2 \<or> w = 3"
  then show "w \<le> 3" by auto
qed


lemma QEM_at_quad:
  "old \<le> 3 \<Longrightarrow> new \<le> 3 \<Longrightarrow>
     \<exists>q. QEM_at (quad_index old new) = Some q \<and> (q = 0 \<or> q = 1 \<or> q = -1 \<or> q = 2)"
  unfolding le3_cases
  by (elim disjE) (simp_all add: QEM_at_def quad_index_def QEM_def)

lemma colecovisionUpdate_Some:
  assumes "QEM_at (quad_index (old_spinner s) (cv_sample p)) = Some q"
  shows "colecovisionUpdate p s =
    Some (s\<lparr>cv_last_update_state0 := pinb_sub1 p AND 0x3F,
            cv_last_update_state1 :=
              ucast ((ucast (pinb_sub2 p) AND (0x1F :: cint))
                     OR push_bit 3 (ucast (pinc_sub2 p) AND push_bit PC2 1)),
            spinner := cv_sample p,
            wheel_pos := clip (wheel_pos s + q * MULT),
            old_spinner := cv_sample p\<rparr>)"
  using assms
  by (simp add: colecovisionUpdate_def Let_def cv_sample_def quad_index_def)


lemma clip_sint: "sint (clip w) = max 0 (min 255 (sint w))"
  by (simp add: clip_def Let_def)

lemma sint_add_no_wrap:
  assumes "0 \<le> sint (w :: cint)" "sint w \<le> 255" "q = 0 \<or> q = 1 \<or> q = -1 \<or> q = 2"
  shows "sint (w + q * MULT) = sint w + sint q * sint MULT"
proof -
  have "sint (w + q * MULT) = signed_take_bit 15 (sint w + sint (q * MULT))"
    by (simp add: sint_word_ariths)
  moreover have "sint (q * MULT) = sint q * 32"
    using assms(3) by (auto simp: MULT_def)
  moreover have "- (2 ^ 15) \<le> sint w + sint q * 32" "sint w + sint q * 32 < 2 ^ 15"
    using assms by auto
  ultimately show ?thesis
    by (simp add: signed_take_bit_int_eq_self MULT_def)
qed


lemma update_step:
  assumes "old_spinner s \<le> 3"
  shows "\<exists>q s'. QEM_at (quad_index (old_spinner s) (cv_sample p)) = Some q
           \<and> colecovisionUpdate p s = Some s'
           \<and> old_spinner s' \<le> 3 \<and> wheel_in_range s'
           \<and> (wheel_in_range s \<longrightarrow>
                sint (wheel_pos s') = max 0 (min 255 (sint (wheel_pos s) + sint q * sint MULT)))"
proof -
  have n: "cv_sample p \<le> 3"
    using cv_sample_cases [of p] by (simp add: le3_cases)
  from QEM_at_quad [OF assms n] obtain q
    where q: "QEM_at (quad_index (old_spinner s) (cv_sample p)) = Some q"
      and v: "q = 0 \<or> q = 1 \<or> q = -1 \<or> q = 2"
    by blast
  note u = colecovisionUpdate_Some [OF q]
  have r: "wheel_in_range s \<Longrightarrow>
      sint (wheel_pos s + q * MULT) = sint (wheel_pos s) + sint q * sint MULT"
    using sint_add_no_wrap [of "wheel_pos s" q] v by (simp add: wheel_in_range_def)
  show ?thesis
    using q u n r by (auto simp: wheel_in_range_def clip_sint)
qed

lemma cv_updates_range:
  "old_spinner s \<le> 3 \<Longrightarrow>
     \<exists>s'. cv_updates ps s = Some s' \<and> old_spinner s' \<le> 3
          \<and> (ps \<noteq> [] \<or> wheel_in_range s \<longrightarrow> wheel_in_range s')"
proof (induction ps arbitrary: s)
  case Nil
  then show ?case by simp
next
  case (Cons p ps)
  from update_step [OF Cons.prems, of p] obtain t
    where t: "colecovisionUpdate p s = Some t" "old_spinner t \<le> 3" "wheel_in_range t"
    by blast
  from Cons.IH [OF t(2)] t show ?case by auto
qed

lemma three_steps_from_250:
  assumes "wheel_pos s = 250"
    and "QEM_at (quad_index (old_spinner s) (cv_sample p1)) = Some 1"
    and "QEM_at (quad_index (cv_sample p1) (cv_sample p2)) = Some 1"
    and "QEM_at (quad_index (cv_sample p2) (cv_sample p3)) = Some 1"
  shows "map_option wheel_pos (cv_updates [p1, p2, p3] s) = Some 255"
  using assms
  by (simp add: colecovisionUpdate_Some MULT_def clip_def)

text \<open>
  C2. From a state whose previous spinner sample is a two-bit value, every run of updates
  succeeds and leaves the wheel position in 0..255 (after at least one update, or if it
  started there); from a position in 0..255 one update yields the position plus the
  table entry times MULT, cut off at 0 and 255, with no wrap-around of the 16-bit sum; and
  starting at 250, three updates whose table entries are +1 each leave exactly 255.
\<close>

theorem wheel_pos_stays_in_range:
  "(old_spinner s \<le> 3 \<longrightarrow>
      (\<exists>s'. cv_updates ps s = Some s' \<and> old_spinner s' \<le> 3
            \<and> (ps \<noteq> [] \<or> wheel_in_range s \<longrightarrow> wheel_in_range s')))
   \<and> (old_spinner s \<le> 3 \<and> wheel_in_range s \<longrightarrow>
      (\<exists>q. QEM_at (quad_index (old_spinner s) (cv_sample p)) = Some q
           \<and> map_option (\<lambda>s'. sint (wheel_pos s')) (colecovisionUpdate p s)
               = Some (max 0 (min 255 (sint (wheel_pos s) + sint q * sint MULT)))))
   \<and> (wheel_pos s = 250
       \<and> QEM_at (quad_index (old_spinner s) (cv_sample p1)) = Some 1
       \<and> QEM_at (quad_index (cv_sample p1) (cv_sample p2)) = Some 1
       \<and> QEM_at (quad_index (cv_sample p2) (cv_sample p3)) = Some 1 \<longrightarrow>
      map_option wheel_pos (cv_updates [p1, p2, p3] s) = Some 255)"
proof -
  have "old_spinner s \<le> 3 \<and> wheel_in_range s \<Longrightarrow>
      (\<exists>q. QEM_at (quad_index (old_spinner s) (cv_sample p)) = Some q
           \<and> map_option (\<lambda>s'. sint (wheel_pos s')) (colecovisionUpdate p s)
               = Some (max 0 (min 255 (sint (wheel_pos s) + sint q * sint MULT))))"
    using update_step [of s p] by auto
  then show ?thesis
    using cv_updates_range [of s ps] three_steps_from_250 [of s p1 p2 p3] by blast
qed

theorem wheel_pos_witness:
  "old_spinner cv_at_250 \<le> 3 \<and> wheel_in_range cv_at_250 \<and> wheel_pos cv_at_250 = 250
   \<and> QEM_at (quad_index (old_spinner cv_at_250) (cv_sample spin_a)) = Some 1
   \<and> QEM_at (quad_index (cv_sample spin_a) (cv_sample spin_ab)) = Some 1
   \<and> QEM_at (quad_index (cv_sample spin_ab) (cv_sample spin_b)) = Some 1
   \<and> map_option wheel_pos (cv_updates [spin_a, spin_ab, spin_b] cv_at_250) = Some 255
   \<and> map_option (\<lambda>s'. sint (wheel_pos s')) (colecovisionUpdate spin_a cv_at_250) = Some 255
   \<and> (\<exists>s'. cv_updates [spin_a, spin_ab, spin_b] cv_at_250 = Some s' \<and> wheel_in_range s')"
proof -
  have s: "cv_sample spin_a = 1" "cv_sample spin_ab = 3" "cv_sample spin_b = 2"
    by (simp_all add: cv_sample_eq spin_a_def spin_ab_def spin_b_def)
  have o: "old_spinner cv_at_250 = 0" "wheel_pos cv_at_250 = 250"
    by (simp_all add: cv_at_250_def cv_power_on_def)
  have q: "QEM_at (quad_index 0 1) = Some 1" "QEM_at (quad_index 1 3) = Some 1"
    "QEM_at (quad_index 3 2) = Some 1"
    by (simp_all add: QEM_at_def quad_index_def QEM_def)
  have r: "wheel_in_range cv_at_250"
    by (simp add: wheel_in_range_def o)
  show ?thesis
    using wheel_pos_stays_in_range [of cv_at_250 "[spin_a, spin_ab, spin_b]" spin_a spin_a spin_ab spin_b]
      s o q r
    by (auto simp: MULT_def)
qed


text \<open>The table entries of the twelve transitions in which at most one line changes.\<close>

lemma QEM_valid_entries:
  "map (\<lambda>(old, new). QEM_at (quad_index old new))
     [(0,0), (0,1), (0,2), (1,0), (1,1), (1,3), (2,0), (2,2), (2,3), (3,1), (3,2), (3,3)]
   = map Some [0, 1, -1, -1, 0, 1, 1, 0, -1, -1, 1, 0]"
  by (simp add: QEM_at_def quad_index_def QEM_def)

text \<open>
  C1. The claim fails on the code for the four double-transition codes. Their table entry
  is 2, and the update adds 2 * 32 = 64 to the wheel position like any other entry: after
  \<open>colecovisionInit\<close> on idle lines (wheel at 128, previous sample 0), an update that
  reads both spinner lines low leaves the wheel at 192, not at 128.
\<close>

theorem double_transition_moves_wheel:
  "colecovisionInit cv_idle_pins cv_power_on = Some (0, cv_started)
   \<and> wheel_pos cv_started = 128 \<and> old_spinner cv_started = 0 \<and> cv_sample spin_ab = 3
   \<and> QEM_at (quad_index (old_spinner cv_started) (cv_sample spin_ab)) = Some 2
   \<and> map_option wheel_pos (colecovisionUpdate spin_ab cv_started) = Some 192
   \<and> map (\<lambda>(old, new). QEM_at (quad_index old new)) [(0,3), (1,2), (2,1), (3,0)]
       = [Some 2, Some 2, Some 2, Some 2]"
proof -
  have i: "colecovisionInit cv_idle_pins cv_power_on = Some (0, cv_started)"
    by (simp add: colecovisionInit_def colecovisionUpdate_def cv_idle_pins_def cv_started_def
          cv_power_on_def Let_def QEM_at_def QEM_def PB_defs MULT_def clip_def)
  have s: "cv_sample spin_ab = 3" "old_spinner cv_started = 0" "wheel_pos cv_started = 128"
    by (simp_all add: cv_sample_eq spin_ab_def cv_started_def cv_power_on_def)
  have q: "QEM_at (quad_index 0 3) = Some 2" "QEM_at (quad_index 1 2) = Some 2"
    "QEM_at (quad_index 2 1) = Some 2" "QEM_at (quad_index 3 0) = Some 2"
    by (simp_all add: QEM_at_def quad_index_def QEM_def)
  have u: "map_option wheel_pos (colecovisionUpdate spin_ab cv_started) = Some 192"
    using q(1) s by (simp add: colecovisionUpdate_Some MULT_def clip_def)
  show ?thesis
    using i s q u by simp
qed


section \<open>The claims about the request handlers and the bootloader jump\<close>

text \<open>
  C8. A class request GET_IDLE with report id 0 or above MAX_REPORTS, or SET_IDLE with a
  report id above MAX_REPORTS, returns length 0 and leaves the idle-rate table, and every
  other variable but \<open>usbMsgPtr\<close> (set on entry to the setup buffer), as it was.
\<close>

theorem idle_requests_out_of_range_ignored:
  "case_labels_distinct k \<and> bmRequestType rq AND USBRQ_TYPE_MASK k = USBRQ_TYPE_CLASS k
   \<and> (bRequest rq = USBRQ_HID_GET_IDLE k
          \<and> (wValue_bytes0 rq = 0 \<or> MAX_REPORTS < unat (wValue_bytes0 rq))
        \<or> bRequest rq = USBRQ_HID_SET_IDLE k \<and> MAX_REPORTS < unat (wValue_bytes0 rq))
   \<longrightarrow> usbFunctionSetup k gp rq s = (0, s\<lparr>usbMsgPtr := SetupBufferPtr\<rparr>)
       \<and> fst (usbFunctionSetup k gp rq s) = 0
       \<and> idleRates (snd (usbFunctionSetup k gp rq s)) = idleRates s"
  by (auto simp: usbFunctionSetup_def case_labels_distinct_def Let_def unat_gt_0)

theorem idle_requests_witness:
  "case_labels_distinct vusb_consts
   \<and> bmRequestType (get_idle 0) AND USBRQ_TYPE_MASK vusb_consts = USBRQ_TYPE_CLASS vusb_consts
   \<and> bRequest (get_idle 0) = USBRQ_HID_GET_IDLE vusb_consts \<and> wValue_bytes0 (get_idle 0) = 0
   \<and> usbFunctionSetup vusb_consts SegaJoy (get_idle 0) fw_sample
        = (0, fw_sample\<lparr>usbMsgPtr := SetupBufferPtr\<rparr>)
   \<and> bmRequestType (get_idle 9) AND USBRQ_TYPE_MASK vusb_consts = USBRQ_TYPE_CLASS vusb_consts
   \<and> bRequest (get_idle 9) = USBRQ_HID_GET_IDLE vusb_consts
   \<and> MAX_REPORTS < unat (wValue_bytes0 (get_idle 9))
   \<and> usbFunctionSetup vusb_consts SegaJoy (get_idle 9) fw_sample
        = (0, fw_sample\<lparr>usbMsgPtr := SetupBufferPtr\<rparr>)
   \<and> bmRequestType (set_idle 9 7) AND USBRQ_TYPE_MASK vusb_consts = USBRQ_TYPE_CLASS vusb_consts
   \<and> bRequest (set_idle 9 7) = USBRQ_HID_SET_IDLE vusb_consts
   \<and> MAX_REPORTS < unat (wValue_bytes0 (set_idle 9 7))
   \<and> usbFunctionSetup vusb_consts SegaJoy (set_idle 9 7) fw_sample
        = (0, fw_sample\<lparr>usbMsgPtr := SetupBufferPtr\<rparr>)
   \<and> idleRates (snd (usbFunctionSetup vusb_consts SegaJoy (set_idle 9 7) fw_sample))
        = [1, 2, 3, 4, 5, 6, 7, 8]"
proof -
  have k: "case_labels_distinct vusb_consts"
    by (simp add: case_labels_distinct_def vusb_consts_def)
  have g0: "bmRequestType (get_idle 0) AND USBRQ_TYPE_MASK vusb_consts = USBRQ_TYPE_CLASS vusb_consts"
    "bRequest (get_idle 0) = USBRQ_HID_GET_IDLE vusb_consts" "wValue_bytes0 (get_idle 0) = 0"
    by (simp_all add: get_idle_def vusb_consts_def)
  have g9: "bmRequestType (get_idle 9) AND USBRQ_TYPE_MASK vusb_consts = USBRQ_TYPE_CLASS vusb_consts"
    "bRequest (get_idle 9) = USBRQ_HID_GET_IDLE vusb_consts"
    "MAX_REPORTS < unat (wValue_bytes0 (get_idle 9))"
    by (simp_all add: get_idle_def vusb_consts_def MAX_REPORTS_def)
  have s9: "bmRequestType (set_idle 9 7) AND USBRQ_TYPE_MASK vusb_consts = USBRQ_TYPE_CLASS vusb_consts"
    "bRequest (set_idle 9 7) = USBRQ_HID_SET_IDLE vusb_consts"
    "MAX_REPORTS < unat (wValue_bytes0 (set_idle 9 7))"
    by (simp_all add: set_idle_def vusb_consts_def MAX_REPORTS_def)
  have i: "idleRates fw_sample = [1, 2, 3, 4, 5, 6, 7, 8]"
    by (simp add: fw_sample_def)
  show ?thesis
    using idle_requests_out_of_range_ignored [of vusb_consts "get_idle 0" SegaJoy fw_sample]
      idle_requests_out_of_range_ignored [of vusb_consts "get_idle 9" SegaJoy fw_sample]
      idle_requests_out_of_range_ignored [of vusb_consts "set_idle 9 7" SegaJoy fw_sample]
      k g0 g9 s9 i
    by simp
qed

lemma usbFunctionSetup_keeps_flag:
  "jumptobootloader (snd (usbFunctionSetup k gp rq s)) = jumptobootloader s"
  by (simp add: usbFunctionSetup_def Let_def split: prod.splits)

lemma usb_calls_keep_flag:
  "jumptobootloader s \<noteq> 0 \<Longrightarrow> jumptobootloader (usb_calls k gp cs s) \<noteq> 0"
proof (induction cs arbitrary: s)
  case Nil
  then show ?case by simp
next
  case (Cons c cs)
  show ?case
  proof (cases c)
    case (SetupCall rq)
    with Cons show ?thesis by (simp add: usbFunctionSetup_keeps_flag)
  next
    case (WriteCall data len)
    with Cons show ?thesis by (simp add: usbFunctionWrite_def)
  qed
qed

lemma store_uint_apply:
  "store_uint a v m x =
     (if x = Suc a then ucast (drop_bit 8 v) else if x = a then ucast v else m x)"
  by (simp add: store_uint_def)

lemma load_store_uint: "load_uint a (store_uint a v m) = v"
  unfolding load_uint_def store_uint_def
  by (rule bit_word_eqI) (auto simp: bit_simps)

text \<open>
  C9. \<open>usbFunctionWrite\<close> returns the length it was given and changes nothing but the
  bootloader flag, which it sets to 1 exactly when the first data byte is 0x5A (a flag
  that was clear is set afterwards if and only if the byte is 0x5A); the driver's state
  is not touched. The setup handler never changes the flag. A pass of the main loop that
  finds the flag set stores 0xBEEF at address 0x013B (0xEF at 0x013B, 0xBE at 0x013C)
  and ends in the spin; so does the pass that comes after a write of 0x5A, whatever
  handler calls the host causes in between. With the flag clear the pass goes on.
\<close>

theorem write_handler_sets_boot_flag:
  "usbFunctionWrite data len s
      = (len, s\<lparr>jumptobootloader := (if data 0 = 0x5A then 1 else jumptobootloader s)\<rparr>)
   \<and> pad (snd (usbFunctionWrite data len s)) = pad s
   \<and> (jumptobootloader s = 0 \<longrightarrow>
        (jumptobootloader (snd (usbFunctionWrite data len s)) \<noteq> 0 \<longleftrightarrow> data 0 = 0x5A))
   \<and> jumptobootloader (snd (usbFunctionSetup k gp rq s)) = jumptobootloader s
   \<and> (jumptobootloader s \<noteq> 0 \<longrightarrow>
        (\<exists>s'. main_loop_head s = Spin s' \<and> load_uint 0x013B (ram s') = 0xBEEF
              \<and> ram s' 0x013B = 0xEF \<and> ram s' 0x013C = 0xBE))
   \<and> (data 0 = 0x5A \<longrightarrow>
        (\<exists>s'. main_loop_head (usb_calls k gp cs (snd (usbFunctionWrite data len s))) = Spin s'
              \<and> load_uint 0x013B (ram s') = 0xBEEF))
   \<and> (jumptobootloader s = 0 \<longrightarrow> main_loop_head s = Continue s)"
proof -
  have "data 0 = 0x5A \<Longrightarrow>
      jumptobootloader (usb_calls k gp cs (snd (usbFunctionWrite data len s))) \<noteq> 0"
    by (rule usb_calls_keep_flag) (simp add: usbFunctionWrite_def)
  then have "data 0 = 0x5A \<longrightarrow>
        (\<exists>s'. main_loop_head (usb_calls k gp cs (snd (usbFunctionWrite data len s))) = Spin s'
              \<and> load_uint 0x013B (ram s') = 0xBEEF)"
    by (simp add: main_loop_head_def Let_def load_store_uint)
  then show ?thesis
    by (simp add: usbFunctionWrite_def main_loop_head_def Let_def load_store_uint
        usbFunctionSetup_keeps_flag store_uint_apply)
qed

theorem write_handler_witness:
  "jumptobootloader fw_sample = 0
   \<and> jumptobootloader (snd (usbFunctionWrite (\<lambda>_. 0x5A) 1 fw_sample)) \<noteq> 0
   \<and> jumptobootloader (snd (usbFunctionWrite (\<lambda>_. 0x5B) 1 fw_sample)) = 0
   \<and> usbFunctionWrite (\<lambda>_. 0x5B) 1 fw_sample = (1, fw_sample)
   \<and> main_loop_head fw_sample = Continue fw_sample
   \<and> (\<exists>s'. main_loop_head (snd (usbFunctionWrite (\<lambda>_. 0x5A) 1 fw_sample)) = Spin s'
           \<and> load_uint 0x013B (ram s') = 0xBEEF
           \<and> ram s' 0x013B = 0xEF \<and> ram s' 0x013C = 0xBE)
   \<and> (\<exists>s'. main_loop_head
              (usb_calls vusb_consts SegaJoy [SetupCall (set_idle 0 7), WriteCall (\<lambda>_. 0x5B) 1]
                 (snd (usbFunctionWrite (\<lambda>_. 0x5A) 1 fw_sample))) = Spin s'
           \<and> load_uint 0x013B (ram s') = 0xBEEF)"
proof -
  let ?s = "snd (usbFunctionWrite (\<lambda>_. 0x5A) 1 fw_sample)"
  let ?cs = "[SetupCall (set_idle 0 7), WriteCall (\<lambda>_. 0x5B) 1]"
  have z: "jumptobootloader fw_sample = 0"
    by (simp add: fw_sample_def)
  have e: "fw_sample\<lparr>jumptobootloader := 0\<rparr> = fw_sample"
    by (simp add: fw_sample_def)
  note a = write_handler_sets_boot_flag
    [of "\<lambda>_. 0x5A" 1 fw_sample vusb_consts SegaJoy "get_idle 1" ?cs]
  note b = write_handler_sets_boot_flag
    [of "\<lambda>_. 0x5B" 1 fw_sample vusb_consts SegaJoy "get_idle 1" ?cs]
  note c = write_handler_sets_boot_flag
    [of "\<lambda>_. 0x5A" 1 ?s vusb_consts SegaJoy "get_idle 1" ?cs]
  have f: "jumptobootloader ?s \<noteq> 0"
    using a z by simp
  have g: "\<exists>s'. main_loop_head ?s = Spin s' \<and> load_uint 0x013B (ram s') = 0xBEEF
           \<and> ram s' 0x013B = 0xEF \<and> ram s' 0x013C = 0xBE"
    using c f by blast
  have h: "usbFunctionWrite (\<lambda>_. 0x5B) 1 fw_sample = (1, fw_sample)"
    "jumptobootloader (snd (usbFunctionWrite (\<lambda>_. 0x5B) 1 fw_sample)) = 0"
    "main_loop_head fw_sample = Continue fw_sample"
    using b z e by simp_all
  have i: "\<exists>s'. main_loop_head (usb_calls vusb_consts SegaJoy ?cs ?s) = Spin s'
           \<and> load_uint 0x013B (ram s') = 0xBEEF"
    using a by blast
  show ?thesis
    using z f g h i by blast
qed

end
